theory Spec2Isabelle
  imports Main "HOL-Library.Word" "HOL-Library.Char_ord" "HOL-Library.List_Lexorder"
begin

section \<open>ImageShareVault: storage, password hashing, login and admin routes\<close>

text \<open>
  A shallow embedding of \<^verbatim>\<open>server/storage.ts\<close>, \<^verbatim>\<open>server/auth.ts\<close> and
  \<^verbatim>\<open>server/routes-admin.ts\<close>.

  \<^item> A JavaScript string is a \<^typ>\<open>string\<close>; a character stands for one UTF-16 code unit
    below 256 (the Latin-1 block, where a code unit is a code point).
  \<^item> A JavaScript number holding an INTEGER column is an \<^typ>\<open>int\<close>.
  \<^item> A SQLite table is the list of its rows in rowid order: \<^verbatim>\<open>.get()\<close> is
    \<^const>\<open>find\<close> (the first match of a table scan), \<^verbatim>\<open>UPDATE .. WHERE\<close> maps over
    the rows, \<^verbatim>\<open>DELETE .. WHERE\<close> filters them, \<^verbatim>\<open>INSERT\<close> appends.
  \<^item> The connection runs with \<^verbatim>\<open>PRAGMA foreign_keys = ON\<close>. A statement that writes
    a user id the caller supplies into a column that \<^verbatim>\<open>REFERENCES users(id)\<close> throws
    \<open>SqliteError\<close> and writes nothing when no user has that id.
  \<^item> \<^verbatim>\<open>throw new Error(msg)\<close> is the value \<open>Inl (Error msg)\<close>. A storage operation
    returns the database it leaves behind together with its outcome, so that what a failed
    call did to the tables can be stated.
  \<^item> \<^verbatim>\<open>new Date().toISOString()\<close> is the parameter \<open>now\<close>; random bytes and the
    scrypt key derivation are parameters too.
\<close>

subsection \<open>Rows and objects\<close>

datatype error = Error string | RangeError string | TypeError string | SqliteError string

datatype image_status = pending | approved | rejected

text \<open>The columns of table \<^verbatim>\<open>images\<close>.\<close>

record image_row =
  img_id :: int
  img_title :: string
  img_description :: "string option"
  img_filename :: string
  img_status :: image_status
  img_user_id :: int
  img_reviewed_by :: "int option"
  img_rejection_reason :: "string option"
  img_is_public :: int
  img_created_at :: string
  img_updated_at :: string

text \<open>The \<^verbatim>\<open>Image\<close> object that \<^verbatim>\<open>transformImage\<close> builds from a row.\<close>

record Image =
  image_id :: int
  image_title :: string
  image_description :: "string option"
  image_filename :: string
  image_status :: image_status
  image_userId :: int
  image_reviewedBy :: "int option"
  image_rejectionReason :: "string option"
  image_isPublic :: bool
  image_createdAt :: string
  image_updatedAt :: string

text \<open>The columns of table \<^verbatim>\<open>users\<close>.\<close>

record user_row =
  usr_id :: int
  usr_name :: string
  usr_email :: string
  usr_password :: string
  usr_is_verified :: int
  usr_verification_token :: "string option"
  usr_is_moderator :: int
  usr_is_admin :: int
  usr_is_banned :: int
  usr_ban_reason :: "string option"
  usr_banned_by :: "int option"
  usr_banned_at :: "string option"
  usr_bio :: "string option"
  usr_profile_picture :: "string option"
  usr_website :: "string option"
  usr_social_links :: "string option"
  usr_theme_preference :: "string option"
  usr_created_at :: string

record User =
  user_id :: int
  user_name :: string
  user_email :: string
  user_password :: string
  user_isVerified :: bool
  user_verificationToken :: "string option"
  user_isModerator :: bool
  user_isAdmin :: bool
  user_isBanned :: bool
  user_banReason :: "string option"
  user_bannedBy :: "int option"
  user_bannedAt :: "string option"
  user_bio :: "string option"
  user_profilePicture :: "string option"
  user_website :: "string option"
  user_socialLinks :: "string option"
  user_themePreference :: string
  user_createdAt :: string

text \<open>The columns of table \<^verbatim>\<open>albums\<close>.\<close>

record album_row =
  alb_id :: int
  alb_title :: string
  alb_description :: "string option"
  alb_cover_image_id :: "int option"
  alb_user_id :: int
  alb_is_public :: int
  alb_created_at :: string
  alb_updated_at :: string

record Album =
  album_id :: int
  album_title :: string
  album_description :: "string option"
  album_coverImageId :: "int option"
  album_userId :: int
  album_isPublic :: bool
  album_createdAt :: string
  album_updatedAt :: string

text \<open>
  The columns of the junction table \<^verbatim>\<open>album_images\<close>. Its surrogate key \<^verbatim>\<open>id\<close> is
  selected once, only to see whether a row exists, so the row carries the other three
  columns. \<^verbatim>\<open>added_at\<close> is text and is compared as text.
\<close>

record album_image_row =
  ai_album_id :: int
  ai_image_id :: int
  ai_added_at :: string

record database =
  users :: "user_row list"
  images :: "image_row list"
  albums :: "album_row list"
  album_images :: "album_image_row list"

subsection \<open>JavaScript truthiness of nullable columns\<close>

text \<open>\<^verbatim>\<open>x ? Number(x) : null\<close>: a NULL and the number 0 both give null.\<close>

definition truthy_num :: "int option \<Rightarrow> int option" where
  "truthy_num x = (case x of None \<Rightarrow> None | Some n \<Rightarrow> if n = 0 then None else Some n)"

text \<open>\<^verbatim>\<open>s || null\<close>: an absent and an empty string both give null.\<close>

definition or_null :: "string option \<Rightarrow> string option" where
  "or_null s = (case s of None \<Rightarrow> None | Some t \<Rightarrow> if t = [] then None else Some t)"

subsection \<open>Row transforms\<close>

text \<open>
  \<^verbatim>\<open>transformImage\<close> reads \<^verbatim>\<open>is_public\<close> as true when the column is missing from
  the row; the schema set up at start always has the column, so the row always carries it.
\<close>

definition transformImage :: "image_row \<Rightarrow> Image" where
  "transformImage row =
     \<lparr>image_id = img_id row,
      image_title = img_title row,
      image_description = img_description row,
      image_filename = img_filename row,
      image_status = img_status row,
      image_userId = img_user_id row,
      image_reviewedBy = truthy_num (img_reviewed_by row),
      image_rejectionReason = img_rejection_reason row,
      image_isPublic = (img_is_public row \<noteq> 0),
      image_createdAt = img_created_at row,
      image_updatedAt = img_updated_at row\<rparr>"

definition transformUser :: "user_row \<Rightarrow> User" where
  "transformUser row =
     \<lparr>user_id = usr_id row,
      user_name = usr_name row,
      user_email = usr_email row,
      user_password = usr_password row,
      user_isVerified = (usr_is_verified row \<noteq> 0),
      user_verificationToken = usr_verification_token row,
      user_isModerator = (usr_is_moderator row \<noteq> 0),
      user_isAdmin = (usr_is_admin row \<noteq> 0),
      user_isBanned = (usr_is_banned row \<noteq> 0),
      user_banReason = usr_ban_reason row,
      user_bannedBy = truthy_num (usr_banned_by row),
      user_bannedAt = usr_banned_at row,
      user_bio = usr_bio row,
      user_profilePicture = usr_profile_picture row,
      user_website = usr_website row,
      user_socialLinks = usr_social_links row,
      user_themePreference =
        (case or_null (usr_theme_preference row) of None \<Rightarrow> ''default'' | Some t \<Rightarrow> t),
      user_createdAt = usr_created_at row\<rparr>"

definition transformAlbum :: "album_row \<Rightarrow> Album" where
  "transformAlbum row =
     \<lparr>album_id = alb_id row,
      album_title = alb_title row,
      album_description = alb_description row,
      album_coverImageId = truthy_num (alb_cover_image_id row),
      album_userId = alb_user_id row,
      album_isPublic = (alb_is_public row \<noteq> 0),
      album_createdAt = alb_created_at row,
      album_updatedAt = alb_updated_at row\<rparr>"

subsection \<open>Image operations\<close>

definition getImageById :: "database \<Rightarrow> int \<Rightarrow> Image option" where
  "getImageById db i = map_option transformImage (find (\<lambda>r. img_id r = i) (images db))"

text \<open>\<^verbatim>\<open>UPDATE images SET is_public = ?, updated_at = ? WHERE id = ?\<close>\<close>

definition set_visibility :: "int \<Rightarrow> bool \<Rightarrow> string \<Rightarrow> image_row \<Rightarrow> image_row" where
  "set_visibility i isPublic now r =
     (if img_id r = i
      then r\<lparr>img_is_public := (if isPublic then 1 else 0), img_updated_at := now\<rparr>
      else r)"

definition updateImageVisibility ::
  "string \<Rightarrow> database \<Rightarrow> int \<Rightarrow> int \<Rightarrow> bool \<Rightarrow> database \<times> (error + Image)" where
  "updateImageVisibility now db imageId userId isPublic =
     (case getImageById db imageId of
        None \<Rightarrow> (db, Inl (Error ''Image not found''))
      | Some img \<Rightarrow>
          if image_userId img \<noteq> userId
          then (db, Inl (Error ''You do not have permission to update this image''))
          else
            let db' = db\<lparr>images := map (set_visibility imageId isPublic now) (images db)\<rparr>
            in (case getImageById db' imageId of
                  None \<Rightarrow> (db', Inl (Error ''Failed to retrieve updated image''))
                | Some updatedImage \<Rightarrow> (db', Inr updatedImage)))"

text \<open>
  \<^verbatim>\<open>UPDATE images SET status = ?, reviewed_by = ?, rejection_reason = ?, updated_at = ?
  WHERE id = ?\<close>, bound to \<^verbatim>\<open>(status, moderatorId, rejectionReason || null, currentDate,
  imageId)\<close>. The statement has no condition on the status the row has. The TypeScript
  type of \<^verbatim>\<open>status\<close> admits \<^verbatim>\<open>"approved"\<close> and \<^verbatim>\<open>"rejected"\<close>; the type used here
  has \<^const>\<open>pending\<close> as well, which changes nothing in what follows.
\<close>

definition set_status ::
  "int \<Rightarrow> image_status \<Rightarrow> int \<Rightarrow> string option \<Rightarrow> string \<Rightarrow> image_row \<Rightarrow> image_row" where
  "set_status i status moderatorId rejectionReason now r =
     (if img_id r = i
      then r\<lparr>img_status := status,
             img_reviewed_by := Some moderatorId,
             img_rejection_reason := or_null rejectionReason,
             img_updated_at := now\<rparr>
      else r)"

text \<open>
  \<^verbatim>\<open>updateImageStatus\<close>. The column \<^verbatim>\<open>reviewed_by\<close> references \<^verbatim>\<open>users(id)\<close>: when
  the UPDATE reaches a row and \<^verbatim>\<open>moderatorId\<close> is no stored user's id, the statement
  throws and the row keeps its values. When no row has the id, nothing is checked.
\<close>

definition updateImageStatus ::
  "string \<Rightarrow> database \<Rightarrow> int \<Rightarrow> image_status \<Rightarrow> int \<Rightarrow> string option
     \<Rightarrow> database \<times> (error + Image)" where
  "updateImageStatus now db imageId status moderatorId rejectionReason =
     (if find (\<lambda>r. img_id r = imageId) (images db) \<noteq> None
         \<and> find (\<lambda>u. usr_id u = moderatorId) (users db) = None
      then (db, Inl (SqliteError ''FOREIGN KEY constraint failed''))
      else
        let db' = db\<lparr>images :=
                   map (set_status imageId status moderatorId rejectionReason now) (images db)\<rparr>
        in (case find (\<lambda>r. img_id r = imageId) (images db') of
              None \<Rightarrow> (db', Inl (Error ''Image not found after update''))
            | Some row \<Rightarrow> (db', Inr (transformImage row))))"

subsection \<open>Strings: JavaScript and SQLite\<close>

text \<open>
  \<^verbatim>\<open>String.prototype.trim\<close> strips white space and line terminators from both ends;
  below 256 these are TAB, LF, VT, FF, CR, SPACE and NBSP.
\<close>

definition js_whitespace :: "char \<Rightarrow> bool" where
  "js_whitespace c = (of_char c \<in> {9, 10, 11, 12, 13, 32, 160 :: nat})"

definition trim :: "string \<Rightarrow> string" where
  "trim s = rev (dropWhile js_whitespace (rev (dropWhile js_whitespace s)))"

definition ascii_upper :: "char \<Rightarrow> bool" where
  "ascii_upper c = (65 \<le> (of_char c :: nat) \<and> (of_char c :: nat) \<le> 90)"

text \<open>The capital letters of the Latin-1 supplement: U+00C0 to U+00DE without U+00D7.\<close>

definition latin1_upper :: "char \<Rightarrow> bool" where
  "latin1_upper c =
     (192 \<le> (of_char c :: nat) \<and> (of_char c :: nat) \<le> 222 \<and> (of_char c :: nat) \<noteq> 215)"

text \<open>
  A capital and its small letter are 32 apart. In each capital concerned bit 5 is clear, so
  adding 32 sets that bit and changes no other.
\<close>

definition shift_lower :: "char \<Rightarrow> char" where
  "shift_lower c =
     (case c of Char b0 b1 b2 b3 b4 b5 b6 b7 \<Rightarrow> Char b0 b1 b2 b3 b4 True b6 b7)"

text \<open>
  \<^verbatim>\<open>String.prototype.toLowerCase\<close> follows the Unicode case mapping: it lowers the
  ASCII capitals and the Latin-1 capitals alike.
\<close>

definition toLowerCase :: "string \<Rightarrow> string" where
  "toLowerCase s = map (\<lambda>c. if ascii_upper c \<or> latin1_upper c then shift_lower c else c) s"

text \<open>
  SQLite's built-in \<^verbatim>\<open>LOWER\<close> converts the ASCII capitals only (the ICU extension,
  which the program does not load, would be needed for the others).
\<close>

definition sql_LOWER :: "string \<Rightarrow> string" where
  "sql_LOWER s = map (\<lambda>c. if ascii_upper c then shift_lower c else c) s"

text \<open>\<^verbatim>\<open>String.prototype.split(sep)\<close> for a one-character separator.\<close>

fun split :: "char \<Rightarrow> string \<Rightarrow> string list" where
  "split sep [] = [[]]"
| "split sep (c # cs) =
     (if c = sep then [] # split sep cs
      else (case split sep cs of [] \<Rightarrow> [[c]] | p # ps \<Rightarrow> (c # p) # ps))"

subsection \<open>Buffers and hexadecimal text\<close>

type_synonym buffer = "8 word list"

definition hex_digit :: "nat \<Rightarrow> char" where
  "hex_digit n = ''0123456789abcdef'' ! n"

text \<open>\<^verbatim>\<open>buf.toString("hex")\<close>: two lower-case digits for each byte.\<close>

definition toString_hex :: "buffer \<Rightarrow> string" where
  "toString_hex buf =
     concat (map (\<lambda>b. [hex_digit (unat b div 16), hex_digit (unat b mod 16)]) buf)"

definition unhex :: "char \<Rightarrow> nat option" where
  "unhex c =
     (let n = (of_char c :: nat)
      in if 48 \<le> n \<and> n \<le> 57 then Some (n - 48)
         else if 97 \<le> n \<and> n \<le> 102 then Some (n - 87)
         else if 65 \<le> n \<and> n \<le> 70 then Some (n - 55)
         else None)"

text \<open>
  \<^verbatim>\<open>Buffer.from(s, 'hex')\<close> decodes pairs of digits and stops, without an error, at
  the first pair that is not hexadecimal; a trailing single character is dropped.
\<close>

fun Buffer_from_hex :: "string \<Rightarrow> buffer" where
  "Buffer_from_hex (a # b # rest) =
     (case (unhex a, unhex b) of
        (Some hi, Some lo) \<Rightarrow> word_of_nat (16 * hi + lo) # Buffer_from_hex rest
      | _ \<Rightarrow> [])"
| "Buffer_from_hex _ = []"

text \<open>\<^verbatim>\<open>crypto.timingSafeEqual\<close> throws a RangeError when the byte lengths differ.\<close>

definition timingSafeEqual :: "buffer \<Rightarrow> buffer \<Rightarrow> error + bool" where
  "timingSafeEqual a b =
     (if length a \<noteq> length b
      then Inl (RangeError ''Input buffers must have the same byte length'')
      else Inr (a = b))"

subsection \<open>Password hashing (auth.ts)\<close>

text \<open>
  \<open>scrypt password salt\<close> stands for \<^verbatim>\<open>scryptAsync(password, salt, 64)\<close> and
  \<open>saltBytes\<close> for the result of \<^verbatim>\<open>randomBytes(16)\<close>.
\<close>

definition hashPassword :: "(string \<Rightarrow> string \<Rightarrow> buffer) \<Rightarrow> buffer \<Rightarrow> string \<Rightarrow> string" where
  "hashPassword scrypt saltBytes password =
     (let salt = toString_hex saltBytes;
          buf = scrypt password salt
      in toString_hex buf @ ''.'' @ salt)"

text \<open>
  The body of the \<^verbatim>\<open>try\<close> block of \<^verbatim>\<open>comparePasswords\<close>. The destructuring
  \<^verbatim>\<open>[storedHash, salt] = stored.split('.')\<close> reads the first two parts; a part that is
  missing is undefined, which \<^verbatim>\<open>!salt\<close> treats like the empty string.
\<close>

definition comparePasswords_try ::
  "(string \<Rightarrow> string \<Rightarrow> buffer) \<Rightarrow> string \<Rightarrow> string \<Rightarrow> error + bool" where
  "comparePasswords_try scrypt supplied stored =
     (if stored = [] \<or> CHR ''.'' \<notin> set stored then Inr False
      else (case split (CHR ''.'') stored of
              storedHash # salt # _ \<Rightarrow>
                if storedHash = [] \<or> salt = [] then Inr False
                else
                  let suppliedBuf = scrypt supplied salt;
                      storedBuf = Buffer_from_hex storedHash
                  in timingSafeEqual suppliedBuf storedBuf
            | _ \<Rightarrow> Inr False))"

text \<open>
  \<^verbatim>\<open>comparePasswords\<close>: the \<^verbatim>\<open>catch\<close> clause turns every error of the body into
  the result false. \<open>Inr\<close> is the resolved promise, \<open>Inl\<close> would be a rejected one.
\<close>

definition comparePasswords ::
  "(string \<Rightarrow> string \<Rightarrow> buffer) \<Rightarrow> string \<Rightarrow> string \<Rightarrow> error + bool" where
  "comparePasswords scrypt supplied stored =
     (case comparePasswords_try scrypt supplied stored of
        Inl err \<Rightarrow> Inr False
      | Inr result \<Rightarrow> Inr result)"

subsection \<open>User operations (storage.ts)\<close>

definition getUser :: "database \<Rightarrow> int \<Rightarrow> User option" where
  "getUser db i = map_option transformUser (find (\<lambda>r. usr_id r = i) (users db))"

text \<open>
  \<^verbatim>\<open>getUserByEmail\<close>: the argument is normalised in JavaScript, the column by SQLite:
  \<^verbatim>\<open>SELECT * FROM users WHERE LOWER(email) = ?\<close>, or \<^verbatim>\<open>WHERE email = ''\<close> when the
  normalised argument is empty.
\<close>

definition getUserByEmail :: "database \<Rightarrow> string \<Rightarrow> User option" where
  "getUserByEmail db email =
     (let normalizedEmail = toLowerCase (trim email)
      in if normalizedEmail = []
         then map_option transformUser (find (\<lambda>r. usr_email r = []) (users db))
         else map_option transformUser
                (find (\<lambda>r. sql_LOWER (usr_email r) = normalizedEmail) (users db)))"



record role_data =
  rd_isModerator :: "bool option"
  rd_isAdmin :: "bool option"

record ban_data =
  bd_isBanned :: bool
  bd_banReason :: "string option"

definition flag :: "bool \<Rightarrow> int" where
  "flag b = (if b then 1 else 0)"

definition set_roles :: "int \<Rightarrow> role_data \<Rightarrow> user_row \<Rightarrow> user_row" where
  "set_roles i data r =
     (if usr_id r = i
      then r\<lparr>usr_is_moderator :=
               (case rd_isModerator data of None \<Rightarrow> usr_is_moderator r | Some b \<Rightarrow> flag b),
             usr_is_admin :=
               (case rd_isAdmin data of None \<Rightarrow> usr_is_admin r | Some b \<Rightarrow> flag b)\<rparr>
      else r)"

definition updateUserRole ::
  "database \<Rightarrow> int \<Rightarrow> int \<Rightarrow> role_data \<Rightarrow> database \<times> (error + User)" where
  "updateUserRole db userId adminId data =
     (case getUser db userId of
        None \<Rightarrow> (db, Inl (Error ''User not found''))
      | Some user \<Rightarrow>
          let db' = (if rd_isModerator data \<noteq> None \<or> rd_isAdmin data \<noteq> None
                     then db\<lparr>users := map (set_roles userId data) (users db)\<rparr>
                     else db)
          in (case getUser db' userId of
                None \<Rightarrow> (db', Inl (Error ''Failed to retrieve updated user''))
              | Some updatedUser \<Rightarrow> (db', Inr updatedUser)))"

definition set_ban :: "string \<Rightarrow> int \<Rightarrow> int \<Rightarrow> ban_data \<Rightarrow> user_row \<Rightarrow> user_row" where
  "set_ban now i adminId data r =
     (if usr_id r = i
      then r\<lparr>usr_is_banned := flag (bd_isBanned data),
             usr_ban_reason := or_null (bd_banReason data),
             usr_banned_by := (if bd_isBanned data then Some adminId else None),
             usr_banned_at := (if bd_isBanned data then Some now else None)\<rparr>
      else r)"

text \<open>
  \<^verbatim>\<open>banUser\<close>. The column \<^verbatim>\<open>banned_by\<close> references \<^verbatim>\<open>users(id)\<close>: a ban by an
  \<^verbatim>\<open>adminId\<close> that is no stored user's id makes the UPDATE throw. An unban writes NULL
  there, which the foreign key admits.
\<close>

definition banUser ::
  "string \<Rightarrow> database \<Rightarrow> int \<Rightarrow> int \<Rightarrow> ban_data \<Rightarrow> database \<times> (error + User)" where
  "banUser now db userId adminId data =
     (case getUser db userId of
        None \<Rightarrow> (db, Inl (Error ''User not found''))
      | Some user \<Rightarrow>
          if bd_isBanned data \<and> find (\<lambda>u. usr_id u = adminId) (users db) = None
          then (db, Inl (SqliteError ''FOREIGN KEY constraint failed''))
          else
            let db' = db\<lparr>users := map (set_ban now userId adminId data) (users db)\<rparr>
            in (case getUser db' userId of
                  None \<Rightarrow> (db', Inl (Error ''Failed to retrieve updated user''))
                | Some updatedUser \<Rightarrow> (db', Inr updatedUser)))"

subsection \<open>The login strategy (auth.ts)\<close>

text \<open>
  What the verify callback of the local strategy hands to \<^verbatim>\<open>done\<close>:
  \<^verbatim>\<open>done(null, user)\<close>, \<^verbatim>\<open>done(null, false, { message })\<close> or \<^verbatim>\<open>done(error)\<close>.
\<close>

datatype done_args = done_user User | done_false string | done_error error

definition ban_message :: "User \<Rightarrow> string" where
  "ban_message user =
     ''Your account has been banned. '' @
       (case or_null (user_banReason user) of None \<Rightarrow> [] | Some reason \<Rightarrow> ''Reason: '' @ reason)"

definition verify ::
  "(string \<Rightarrow> string \<Rightarrow> buffer) \<Rightarrow> database \<Rightarrow> string \<Rightarrow> string \<Rightarrow> done_args" where
  "verify scrypt db email password =
     (case getUserByEmail db email of
        None \<Rightarrow> done_false ''Incorrect email or password''
      | Some user \<Rightarrow>
          if user_isBanned user then done_false (ban_message user)
          else (case comparePasswords scrypt password (user_password user) of
                  Inl err \<Rightarrow> done_error err
                | Inr isPasswordValid \<Rightarrow>
                    if \<not> isPasswordValid then done_false ''Incorrect email or password''
                    else done_user user))"

subsection \<open>Admin routes (routes-admin.ts)\<close>

text \<open>
  A response is a status code with a JSON body. A request carries the session user
  \<^verbatim>\<open>req.user\<close>, the numeric path parameter \<^verbatim>\<open>Number(req.params.userId)\<close> and the result
  of the schema's \<^verbatim>\<open>safeParse(req.body)\<close>: \<open>None\<close> when validation fails. A path
  parameter that is not an integer equals no user id and is not represented.
\<close>

datatype json_body = Message string | UserJson User

datatype response = Response nat json_body

record 'd request =
  req_user :: "User option"
  param_userId :: int
  parsed_body :: "'d option"

text \<open>The middleware \<^verbatim>\<open>isAdmin\<close>: \<open>None\<close> is \<^verbatim>\<open>next()\<close>.\<close>

definition isAdmin :: "database \<Rightarrow> 'd request \<Rightarrow> response option" where
  "isAdmin db req =
     (case req_user req of
        None \<Rightarrow> Some (Response 401 (Message ''Authentication required''))
      | Some sessionUser \<Rightarrow>
          (case getUser db (user_id sessionUser) of
             None \<Rightarrow> Some (Response 403 (Message ''Admin privileges required''))
           | Some user \<Rightarrow>
               if \<not> user_isAdmin user
               then Some (Response 403 (Message ''Admin privileges required''))
               else None))"

text \<open>\<^verbatim>\<open>PATCH /api/admin/users/:userId/role\<close>\<close>

definition patch_role :: "database \<Rightarrow> role_data request \<Rightarrow> database \<times> response" where
  "patch_role db req =
     (case isAdmin db req of
        Some denied \<Rightarrow> (db, denied)
      | None \<Rightarrow>
          (case req_user req of
             None \<Rightarrow> (db, Response 500 (Message ''Failed to update user role''))
           | Some sessionUser \<Rightarrow>
               let userId = param_userId req;
                   adminId = user_id sessionUser
               in (case parsed_body req of
                     None \<Rightarrow> (db, Response 400 (Message ''Invalid data''))
                   | Some data \<Rightarrow>
                       if userId = adminId
                       then (db, Response 400 (Message ''Cannot modify your own role''))
                       else (case updateUserRole db userId adminId data of
                               (db', Inl err) \<Rightarrow>
                                 (db', Response 500 (Message ''Failed to update user role''))
                             | (db', Inr updatedUser) \<Rightarrow>
                                 (db', Response 200 (UserJson updatedUser))))))"

text \<open>\<^verbatim>\<open>PATCH /api/admin/users/:userId/ban\<close>\<close>

definition patch_ban :: "string \<Rightarrow> database \<Rightarrow> ban_data request \<Rightarrow> database \<times> response" where
  "patch_ban now db req =
     (case isAdmin db req of
        Some denied \<Rightarrow> (db, denied)
      | None \<Rightarrow>
          (case req_user req of
             None \<Rightarrow> (db, Response 500 (Message ''Failed to update user ban status''))
           | Some sessionUser \<Rightarrow>
               let userId = param_userId req;
                   adminId = user_id sessionUser
               in (case parsed_body req of
                     None \<Rightarrow> (db, Response 400 (Message ''Invalid data''))
                   | Some data \<Rightarrow>
                       if userId = adminId
                       then (db, Response 400 (Message ''Cannot ban yourself''))
                       else (case banUser now db userId adminId data of
                               (db', Inl err) \<Rightarrow>
                                 (db', Response 500 (Message ''Failed to update user ban status''))
                             | (db', Inr updatedUser) \<Rightarrow>
                                 (db', Response 200 (UserJson updatedUser))))))"

subsection \<open>Album operations (storage.ts)\<close>

text \<open>
  \<^verbatim>\<open>getAlbumById\<close> also returns the album's approved images; the two callers below read
  only the album's own fields, so the list is left out.
\<close>

definition getAlbumById :: "database \<Rightarrow> int \<Rightarrow> Album option" where
  "getAlbumById db i = map_option transformAlbum (find (\<lambda>r. alb_id r = i) (albums db))"

text \<open>
  \<^verbatim>\<open>UPDATE albums SET cover_image_id = ?, updated_at = ? WHERE id = ? AND
  cover_image_id IS NULL\<close>
\<close>

definition set_first_cover :: "int \<Rightarrow> int \<Rightarrow> string \<Rightarrow> album_row \<Rightarrow> album_row" where
  "set_first_cover albumId imageId now a =
     (if alb_id a = albumId \<and> alb_cover_image_id a = None
      then a\<lparr>alb_cover_image_id := Some imageId, alb_updated_at := now\<rparr>
      else a)"

definition addImageToAlbum ::
  "string \<Rightarrow> database \<Rightarrow> int \<Rightarrow> int \<Rightarrow> int \<Rightarrow> database \<times> (error + unit)" where
  "addImageToAlbum now db albumId userId imageId =
     (case getAlbumById db albumId of
        None \<Rightarrow> (db, Inl (Error ''Album not found''))
      | Some album \<Rightarrow>
          if album_userId album \<noteq> userId
          then (db, Inl (Error ''You do not have permission to update this album''))
          else
            (case getImageById db imageId of
               None \<Rightarrow> (db, Inl (Error ''Image not found''))
             | Some img \<Rightarrow>
                 if image_status img \<noteq> approved
                 then (db, Inl (Error ''Only approved images can be added to albums''))
                 else
                   (case find (\<lambda>r. ai_album_id r = albumId \<and> ai_image_id r = imageId)
                           (album_images db) of
                      Some existingEntry \<Rightarrow> (db, Inr ())
                    | None \<Rightarrow>
                        let db1 = db\<lparr>album_images := album_images db @
                                     [\<lparr>ai_album_id = albumId, ai_image_id = imageId,
                                       ai_added_at = now\<rparr>]\<rparr>
                        in if album_coverImageId album = None
                           then (db1\<lparr>albums :=
                                       map (set_first_cover albumId imageId now) (albums db1)\<rparr>,
                                 Inr ())
                           else (db1, Inr ()))))"

text \<open>The membership rows of one album: \<^verbatim>\<open>FROM album_images WHERE album_id = ?\<close>.\<close>

definition album_members :: "database \<Rightarrow> int \<Rightarrow> album_image_row list" where
  "album_members db albumId = filter (\<lambda>r. ai_album_id r = albumId) (album_images db)"

text \<open>
  \<^verbatim>\<open>SELECT image_id FROM album_images WHERE album_id = ? ORDER BY added_at DESC LIMIT 1\<close>
  on the rows of one album: a row whose \<^verbatim>\<open>added_at\<close> is greatest. SQL leaves open which
  row comes first among equal \<^verbatim>\<open>added_at\<close>; this model takes the one of least rowid.
\<close>

fun latest_added :: "album_image_row list \<Rightarrow> album_image_row option" where
  "latest_added [] = None"
| "latest_added (r # rs) =
     (case latest_added rs of
        None \<Rightarrow> Some r
      | Some m \<Rightarrow> if ai_added_at r < ai_added_at m then Some m else Some r)"

text \<open>\<^verbatim>\<open>UPDATE albums SET cover_image_id = ?, updated_at = ? WHERE id = ?\<close>\<close>

definition set_cover :: "int \<Rightarrow> int option \<Rightarrow> string \<Rightarrow> album_row \<Rightarrow> album_row" where
  "set_cover albumId cover now a =
     (if alb_id a = albumId
      then a\<lparr>alb_cover_image_id := cover, alb_updated_at := now\<rparr>
      else a)"

definition removeImageFromAlbum ::
  "string \<Rightarrow> database \<Rightarrow> int \<Rightarrow> int \<Rightarrow> int \<Rightarrow> database \<times> (error + unit)" where
  "removeImageFromAlbum now db albumId userId imageId =
     (case getAlbumById db albumId of
        None \<Rightarrow> (db, Inl (Error ''Album not found''))
      | Some album \<Rightarrow>
          if album_userId album \<noteq> userId
          then (db, Inl (Error ''You do not have permission to update this album''))
          else
            let db1 = db\<lparr>album_images :=
                         filter (\<lambda>r. \<not> (ai_album_id r = albumId \<and> ai_image_id r = imageId))
                           (album_images db)\<rparr>
            in if album_coverImageId album = Some imageId
               then
                 let firstImage = latest_added (album_members db1 albumId);
                     cover = map_option ai_image_id firstImage
                 in (db1\<lparr>albums := map (set_cover albumId cover now) (albums db1)\<rparr>, Inr ())
               else (db1, Inr ()))"

subsection \<open>A small database for concrete runs\<close>

definition toy_scrypt :: "string \<Rightarrow> string \<Rightarrow> buffer" where
  "toy_scrypt password salt =
     take 64 (map (\<lambda>c. word_of_nat (of_char c)) (password @ salt) @ replicate 64 0)"

definition blank_user :: user_row where
  "blank_user =
     \<lparr>usr_id = 0, usr_name = [], usr_email = [], usr_password = [], usr_is_verified = 1,
      usr_verification_token = None, usr_is_moderator = 0, usr_is_admin = 0,
      usr_is_banned = 0, usr_ban_reason = None, usr_banned_by = None, usr_banned_at = None,
      usr_bio = None, usr_profile_picture = None, usr_website = None,
      usr_social_links = None, usr_theme_preference = Some ''default'',
      usr_created_at = ''2024-05-01 08:00:00''\<rparr>"

definition admin_row :: user_row where
  "admin_row =
     blank_user\<lparr>usr_id := 1, usr_name := ''Admin'', usr_email := ''admin@example.com'',
       usr_password := ''00.aa'', usr_is_moderator := 1, usr_is_admin := 1\<rparr>"

definition foo_row :: user_row where
  "foo_row =
     blank_user\<lparr>usr_id := 2, usr_name := ''Foo'', usr_email := ''Foo@Bar.com'',
       usr_password := ''00.bb'', usr_is_verified := 0,
       usr_verification_token := Some ''c0ffee''\<rparr>"

definition banned_row :: user_row where
  "banned_row =
     blank_user\<lparr>usr_id := 3, usr_name := ''Mallory'', usr_email := ''mallory@example.com'',
       usr_password := hashPassword toy_scrypt [0xAB, 0xCD] ''hunter2'',
       usr_is_banned := 1, usr_ban_reason := Some ''spam'', usr_banned_by := Some 1,
       usr_banned_at := Some ''2024-05-05T12:00:00.000Z''\<rparr>"

definition sunset_row :: image_row where
  "sunset_row =
     \<lparr>img_id = 1, img_title = ''Sunset'', img_description = None,
      img_filename = ''1714550000000-a1b2.png'', img_status = approved, img_user_id = 2,
      img_reviewed_by = Some 1, img_rejection_reason = None, img_is_public = 1,
      img_created_at = ''2024-05-01 10:00:00'', img_updated_at = ''2024-05-02T09:00:00.000Z''\<rparr>"

definition harbour_row :: image_row where
  "harbour_row =
     sunset_row\<lparr>img_id := 2, img_title := ''Harbour'', img_status := pending,
       img_reviewed_by := None, img_updated_at := ''2024-05-01 10:05:00''\<rparr>"

definition dunes_row :: image_row where
  "dunes_row = sunset_row\<lparr>img_id := 3, img_title := ''Dunes''\<rparr>"

definition blurry_row :: image_row where
  "blurry_row =
     sunset_row\<lparr>img_id := 4, img_title := ''Blurry'', img_status := rejected,
       img_rejection_reason := Some ''out of focus''\<rparr>"

definition meadow_row :: image_row where
  "meadow_row = sunset_row\<lparr>img_id := 5, img_title := ''Meadow''\<rparr>"

definition holiday_row :: album_row where
  "holiday_row =
     \<lparr>alb_id = 1, alb_title = ''Holiday'', alb_description = None,
      alb_cover_image_id = Some 1, alb_user_id = 2, alb_is_public = 1,
      alb_created_at = ''2024-05-03T08:00:00.000Z'',
      alb_updated_at = ''2024-05-03T08:00:00.000Z''\<rparr>"

definition demo_db :: database where
  "demo_db =
     \<lparr>users = [admin_row, foo_row, banned_row],
      images = [sunset_row, harbour_row, dunes_row, blurry_row, meadow_row],
      albums = [holiday_row],
      album_images =
        [\<lparr>ai_album_id = 1, ai_image_id = 1, ai_added_at = ''2024-05-03T08:01:00.000Z''\<rparr>,
         \<lparr>ai_album_id = 1, ai_image_id = 3, ai_added_at = ''2024-05-03T08:02:00.000Z''\<rparr>]\<rparr>"

text \<open>A user whose email starts with U+00C9, LATIN CAPITAL LETTER E WITH ACUTE.\<close>

definition accent_row :: user_row where
  "accent_row =
     blank_user\<lparr>usr_id := 4, usr_name := ''Elodie'', usr_email := CHR 0xC9 # ''@x.com'',
       usr_password := ''00.cc''\<rparr>"

definition accent_db :: database where
  "accent_db = \<lparr>users = [admin_row, accent_row], images = [], albums = [], album_images = []\<rparr>"

text \<open>A banned user whose email starts with U+00C9 and whose password is \<^verbatim>\<open>hunter2\<close>.\<close>

definition banned_accent_row :: user_row where
  "banned_accent_row =
     blank_user\<lparr>usr_id := 6, usr_name := ''Eloi'', usr_email := CHR 0xC9 # ''@x.com'',
       usr_password := hashPassword toy_scrypt [0xAB, 0xCD] ''hunter2'',
       usr_is_banned := 1, usr_ban_reason := Some ''spam'', usr_banned_by := Some 1,
       usr_banned_at := Some ''2024-05-05T12:00:00.000Z''\<rparr>"

definition banned_accent_db :: database where
  "banned_accent_db =
     \<lparr>users = [admin_row, banned_accent_row], images = [], albums = [], album_images = []\<rparr>"



section \<open>Properties\<close>

subsection \<open>Tables: reading a row back after an update\<close>

lemma find_map_key:
  assumes "\<And>r. key (f r) = key r"
  shows "find (\<lambda>r. key r = i) (map f rows) = map_option f (find (\<lambda>r. key r = i) rows)"
  using assms by (induction rows) auto

lemma find_map_other:
  assumes "\<And>r. key (f r) = key r" and "\<And>r. key r \<noteq> i \<Longrightarrow> f r = r"
  shows "j \<noteq> i \<Longrightarrow> find (\<lambda>r. key r = j) (map f rows) = find (\<lambda>r. key r = j) rows"
  using assms by (induction rows) auto

lemma find_key_eq: "find (\<lambda>r. key r = i) rows = Some row \<Longrightarrow> key row = i"
  by (induction rows) (auto split: if_splits)

lemma img_id_set_visibility: "img_id (set_visibility i p now r) = img_id r"
  by (simp add: set_visibility_def)

lemma img_id_set_status: "img_id (set_status i s m rr now r) = img_id r"
  by (simp add: set_status_def)

lemma transformImage_set_visibility:
  "img_id r = i \<Longrightarrow> transformImage (set_visibility i p now r)
     = (transformImage r)\<lparr>image_isPublic := p, image_updatedAt := now\<rparr>"
  by (simp add: set_visibility_def transformImage_def)

lemma transformImage_set_status:
  "img_id r = i \<Longrightarrow> transformImage (set_status i s m rr now r)
     = (transformImage r)\<lparr>image_status := s, image_reviewedBy := truthy_num (Some m),
          image_rejectionReason := or_null rr, image_updatedAt := now\<rparr>"
  by (simp add: set_status_def transformImage_def)

lemma getImageById_visibility_same:
  assumes "getImageById db i = Some before"
  shows "getImageById (db\<lparr>images := map (set_visibility i p now) (images db)\<rparr>) i
           = Some (before\<lparr>image_isPublic := p, image_updatedAt := now\<rparr>)"
proof -
  from assms obtain row where row: "find (\<lambda>r. img_id r = i) (images db) = Some row"
    and before: "before = transformImage row"
    by (auto simp: getImageById_def)
  have "img_id row = i" using row by (rule find_key_eq)
  then show ?thesis
    using row before
    by (simp add: getImageById_def find_map_key [where key = img_id, OF img_id_set_visibility]
        transformImage_set_visibility)
qed

lemma getImageById_visibility_other:
  "j \<noteq> i \<Longrightarrow> getImageById (db\<lparr>images := map (set_visibility i p now) (images db)\<rparr>) j
           = getImageById db j"
  by (simp add: getImageById_def
      find_map_other [where key = img_id and f = "set_visibility i p now" and i = i]
      set_visibility_def)

lemma getImageById_status_same:
  assumes "getImageById db i = Some before"
  shows "getImageById (db\<lparr>images := map (set_status i s m rr now) (images db)\<rparr>) i
           = Some (before\<lparr>image_status := s, image_reviewedBy := truthy_num (Some m),
                     image_rejectionReason := or_null rr, image_updatedAt := now\<rparr>)"
proof -
  from assms obtain row where row: "find (\<lambda>r. img_id r = i) (images db) = Some row"
    and before: "before = transformImage row"
    by (auto simp: getImageById_def)
  have "img_id row = i" using row by (rule find_key_eq)
  then show ?thesis
    using row before
    by (simp add: getImageById_def find_map_key [where key = img_id, OF img_id_set_status]
        transformImage_set_status)
qed

lemma getImageById_status_other:
  "j \<noteq> i \<Longrightarrow> getImageById (db\<lparr>images := map (set_status i s m rr now) (images db)\<rparr>) j
           = getImageById db j"
  by (simp add: getImageById_def
      find_map_other [where key = img_id and f = "set_status i s m rr now" and i = i]
      set_status_def)

lemma find_None_ids: "find (\<lambda>r. key r = i) rows = None \<longleftrightarrow> i \<notin> key ` set rows"
  by (auto simp: find_None_iff)

lemma updateImageStatus_eq:
  assumes "m \<in> usr_id ` set (users db)"
  shows "updateImageStatus now db i s m rr =
     (db\<lparr>images := map (set_status i s m rr now) (images db)\<rparr>,
      case getImageById (db\<lparr>images := map (set_status i s m rr now) (images db)\<rparr>) i of
        None \<Rightarrow> Inl (Error ''Image not found after update'') | Some x \<Rightarrow> Inr x)"
proof -
  have "find (\<lambda>u. usr_id u = m) (users db) \<noteq> None"
    using assms by (simp add: find_None_ids)
  then show ?thesis
    by (simp add: updateImageStatus_def getImageById_def Let_def split: option.splits)
qed

lemma updateImageStatus_foreign_key:
  assumes "getImageById db i = Some before" and "m \<notin> usr_id ` set (users db)"
  shows "updateImageStatus now db i s m rr
           = (db, Inl (SqliteError ''FOREIGN KEY constraint failed''))"
proof -
  have "find (\<lambda>r. img_id r = i) (images db) \<noteq> None"
    using assms(1) by (auto simp: getImageById_def)
  moreover have "find (\<lambda>u. usr_id u = m) (users db) = None"
    using assms(2) by (simp add: find_None_ids)
  ultimately show ?thesis by (simp add: updateImageStatus_def)
qed

subsection \<open>Image visibility\<close>

text \<open>
  C10. \<^verbatim>\<open>updateImageVisibility\<close> is owner-gated and frame-preserving. For a stored image,
  a caller whose id differs from the image's owner id gets the permission error and the
  database is the one before the call. For the owner the call succeeds; the image returned,
  which is also the image stored afterwards, is the image before the call with only
  \<^verbatim>\<open>isPublic\<close> and \<^verbatim>\<open>updatedAt\<close> replaced (so id, title, description, filename, status,
  userId, reviewedBy, rejectionReason and createdAt are as before), every other image reads
  back as before, and the other tables are untouched.
\<close>

theorem updateImageVisibility_owner_gated:
  assumes "getImageById db imageId = Some before"
  shows "(image_userId before \<noteq> userId \<longrightarrow>
            updateImageVisibility now db imageId userId isPublic
              = (db, Inl (Error ''You do not have permission to update this image'')))
       \<and> (image_userId before = userId \<longrightarrow>
            (\<exists>db'. updateImageVisibility now db imageId userId isPublic
                     = (db', Inr (before\<lparr>image_isPublic := isPublic, image_updatedAt := now\<rparr>))
                 \<and> getImageById db' imageId
                     = Some (before\<lparr>image_isPublic := isPublic, image_updatedAt := now\<rparr>)
                 \<and> (\<forall>j. j \<noteq> imageId \<longrightarrow> getImageById db' j = getImageById db j)
                 \<and> users db' = users db \<and> albums db' = albums db
                 \<and> album_images db' = album_images db))"
  using assms
  by (simp add: updateImageVisibility_def getImageById_visibility_same
      getImageById_visibility_other)

theorem updateImageVisibility_owner_gated_witness:
  "getImageById demo_db 1 = Some (transformImage sunset_row)
   \<and> image_userId (transformImage sunset_row) = 2
   \<and> updateImageVisibility ''2024-06-01T00:00:00.000Z'' demo_db 1 9 False
       = (demo_db, Inl (Error ''You do not have permission to update this image''))
   \<and> snd (updateImageVisibility ''2024-06-01T00:00:00.000Z'' demo_db 1 2 False)
       = Inr ((transformImage sunset_row)
               \<lparr>image_isPublic := False, image_updatedAt := ''2024-06-01T00:00:00.000Z''\<rparr>)"
proof -
  have found: "getImageById demo_db 1 = Some (transformImage sunset_row)"
    by (simp add: getImageById_def demo_db_def sunset_row_def)
  have owner: "image_userId (transformImage sunset_row) = 2"
    by (simp add: transformImage_def sunset_row_def)
  from updateImageVisibility_owner_gated [OF found, of 9 "''2024-06-01T00:00:00.000Z''" False]
    updateImageVisibility_owner_gated [OF found, of 2 "''2024-06-01T00:00:00.000Z''" False]
    found owner
  show ?thesis by auto
qed

subsection \<open>Moderation decisions\<close>

lemma demo_db_tables:
  "images demo_db = [sunset_row, harbour_row, dunes_row, blurry_row, meadow_row]"
  "users demo_db = [admin_row, foo_row, banned_row]"
  by (simp_all add: demo_db_def)

lemma demo_db_user_ids: "usr_id ` set (users demo_db) = {1, 2, 3}"
  by (auto simp: demo_db_def admin_row_def foo_row_def banned_row_def blank_user_def)

text \<open>
  C1, as the specification states it: a decision on an image that is already approved or
  rejected fails and leaves status, reviewedBy, rejectionReason and updatedAt as they were.
  The code does otherwise. In the small database image 1 is approved and user 1 is a stored
  moderator; rejecting the image succeeds and rewrites the four columns.
\<close>

theorem updateImageStatus_redecide_counterexample:
  "img_status sunset_row = approved
   \<and> images demo_db = [sunset_row, harbour_row, dunes_row, blurry_row, meadow_row]
   \<and> updateImageStatus ''2024-06-01T00:00:00.000Z'' demo_db 1 rejected 1 (Some ''blurry'')
       = (demo_db\<lparr>images :=
            [sunset_row\<lparr>img_status := rejected, img_reviewed_by := Some 1,
               img_rejection_reason := Some ''blurry'',
               img_updated_at := ''2024-06-01T00:00:00.000Z''\<rparr>,
             harbour_row, dunes_row, blurry_row, meadow_row]\<rparr>,
          Inr (transformImage
                 (sunset_row\<lparr>img_status := rejected, img_reviewed_by := Some 1,
                    img_rejection_reason := Some ''blurry'',
                    img_updated_at := ''2024-06-01T00:00:00.000Z''\<rparr>)))"
proof -
  have moderator: "find (\<lambda>u. usr_id u = 1) (users demo_db) \<noteq> None"
    by (simp add: find_None_ids demo_db_user_ids)
  have st: "img_status sunset_row = approved"
    by (simp add: sunset_row_def)
  have run: "updateImageStatus ''2024-06-01T00:00:00.000Z'' demo_db 1 rejected 1 (Some ''blurry'')
       = (demo_db\<lparr>images :=
            [sunset_row\<lparr>img_status := rejected, img_reviewed_by := Some 1,
               img_rejection_reason := Some ''blurry'',
               img_updated_at := ''2024-06-01T00:00:00.000Z''\<rparr>,
             harbour_row, dunes_row, blurry_row, meadow_row]\<rparr>,
          Inr (transformImage
                 (sunset_row\<lparr>img_status := rejected, img_reviewed_by := Some 1,
                    img_rejection_reason := Some ''blurry'',
                    img_updated_at := ''2024-06-01T00:00:00.000Z''\<rparr>)))"
    using moderator
    by (simp add: updateImageStatus_def demo_db_tables(1) set_status_def or_null_def
        sunset_row_def harbour_row_def dunes_row_def blurry_row_def meadow_row_def)
  from st demo_db_tables(1) run show ?thesis by blast
qed

text \<open>
  C1, amended: \<^verbatim>\<open>updateImageStatus\<close> does not look at the status an image has. For every
  stored image, pending or already decided, and every \<^verbatim>\<open>moderatorId\<close> that is the id of a
  stored user, the call succeeds; the image returned, which is also the image stored
  afterwards, is the image before the call with status, reviewedBy, rejectionReason (null
  for an absent or empty reason) and updatedAt replaced by the values of the call; every
  other image reads back as before. With a \<^verbatim>\<open>moderatorId\<close> that is no stored user's id the
  foreign key on \<^verbatim>\<open>reviewed_by\<close> makes the call throw, and the database is the one before
  the call.
\<close>

theorem updateImageStatus_overwrites:
  assumes "getImageById db imageId = Some before"
  shows "(moderatorId \<in> usr_id ` set (users db) \<longrightarrow>
           (\<exists>db'. updateImageStatus now db imageId status moderatorId rejectionReason
                    = (db', Inr (before\<lparr>image_status := status,
                                   image_reviewedBy := truthy_num (Some moderatorId),
                                   image_rejectionReason := or_null rejectionReason,
                                   image_updatedAt := now\<rparr>))
                \<and> getImageById db' imageId
                    = Some (before\<lparr>image_status := status,
                                   image_reviewedBy := truthy_num (Some moderatorId),
                                   image_rejectionReason := or_null rejectionReason,
                                   image_updatedAt := now\<rparr>)
                \<and> (\<forall>j. j \<noteq> imageId \<longrightarrow> getImageById db' j = getImageById db j)
                \<and> users db' = users db \<and> albums db' = albums db
                \<and> album_images db' = album_images db))
       \<and> (moderatorId \<notin> usr_id ` set (users db) \<longrightarrow>
           updateImageStatus now db imageId status moderatorId rejectionReason
             = (db, Inl (SqliteError ''FOREIGN KEY constraint failed'')))"
proof (intro conjI impI)
  assume "moderatorId \<in> usr_id ` set (users db)"
  then show "\<exists>db'. updateImageStatus now db imageId status moderatorId rejectionReason
                    = (db', Inr (before\<lparr>image_status := status,
                                   image_reviewedBy := truthy_num (Some moderatorId),
                                   image_rejectionReason := or_null rejectionReason,
                                   image_updatedAt := now\<rparr>))
                \<and> getImageById db' imageId
                    = Some (before\<lparr>image_status := status,
                                   image_reviewedBy := truthy_num (Some moderatorId),
                                   image_rejectionReason := or_null rejectionReason,
                                   image_updatedAt := now\<rparr>)
                \<and> (\<forall>j. j \<noteq> imageId \<longrightarrow> getImageById db' j = getImageById db j)
                \<and> users db' = users db \<and> albums db' = albums db
                \<and> album_images db' = album_images db"
    using assms
    by (simp add: updateImageStatus_eq getImageById_status_same getImageById_status_other)
next
  assume "moderatorId \<notin> usr_id ` set (users db)"
  with assms show "updateImageStatus now db imageId status moderatorId rejectionReason
             = (db, Inl (SqliteError ''FOREIGN KEY constraint failed''))"
    by (rule updateImageStatus_foreign_key)
qed

theorem updateImageStatus_overwrites_witness:
  "getImageById demo_db 1 = Some (transformImage sunset_row)
   \<and> image_status (transformImage sunset_row) = approved
   \<and> (1::int) \<in> usr_id ` set (users demo_db)
   \<and> snd (updateImageStatus ''2024-06-01T00:00:00.000Z'' demo_db 1 rejected 1 (Some ''blurry''))
       = Inr ((transformImage sunset_row)
               \<lparr>image_status := rejected, image_reviewedBy := Some 1,
                image_rejectionReason := Some ''blurry'',
                image_updatedAt := ''2024-06-01T00:00:00.000Z''\<rparr>)
   \<and> (99::int) \<notin> usr_id ` set (users demo_db)
   \<and> updateImageStatus ''2024-06-01T00:00:00.000Z'' demo_db 1 rejected 99 (Some ''blurry'')
       = (demo_db, Inl (SqliteError ''FOREIGN KEY constraint failed''))"
proof -
  have found: "getImageById demo_db 1 = Some (transformImage sunset_row)"
    by (simp add: getImageById_def demo_db_def sunset_row_def)
  have st: "image_status (transformImage sunset_row) = approved"
    by (simp add: transformImage_def sunset_row_def)
  have stored: "(1::int) \<in> usr_id ` set (users demo_db)"
    and absent: "(99::int) \<notin> usr_id ` set (users demo_db)"
    by (simp_all add: demo_db_user_ids)
  from updateImageStatus_overwrites
         [OF found, of 1 "''2024-06-01T00:00:00.000Z''" rejected "Some ''blurry''"]
       updateImageStatus_overwrites
         [OF found, of 99 "''2024-06-01T00:00:00.000Z''" rejected "Some ''blurry''"]
       found st stored absent
  show ?thesis by (auto simp: truthy_num_def or_null_def)
qed

subsection \<open>Hexadecimal text\<close>

lemma hex_digits_checked:
  "list_all (\<lambda>n. unhex (hex_digit n) = Some n \<and> CHR ''.'' \<noteq> hex_digit n) [0..<16]"
  by code_simp

lemma hex_digit_facts:
  assumes "n < 16"
  shows unhex_hex_digit: "unhex (hex_digit n) = Some n"
    and hex_digit_not_dot: "CHR ''.'' \<noteq> hex_digit n"
proof -
  have "n \<in> set [0..<16]" using assms by simp
  with hex_digits_checked
  have "unhex (hex_digit n) = Some n \<and> CHR ''.'' \<noteq> hex_digit n"
    unfolding list_all_iff by blast
  then show "unhex (hex_digit n) = Some n" and "CHR ''.'' \<noteq> hex_digit n" by simp_all
qed

lemma byte_div_16: "unat (b :: 8 word) div 16 < 16"
proof -
  have "unat b < 2 ^ LENGTH(8)" by (rule unsigned_less)
  then have "unat b < 256" by simp
  then show ?thesis by simp
qed

lemma Buffer_from_hex_toString_hex: "Buffer_from_hex (toString_hex buf) = buf"
  by (induction buf) (simp_all add: toString_hex_def unhex_hex_digit byte_div_16)

lemma dot_notin_toString_hex: "CHR ''.'' \<notin> set (toString_hex buf)"
  by (induction buf) (auto simp: toString_hex_def hex_digit_not_dot byte_div_16)

lemma toString_hex_empty: "toString_hex buf = [] \<longleftrightarrow> buf = []"
  by (cases buf) (simp_all add: toString_hex_def)

lemma split_no_sep: "sep \<notin> set s \<Longrightarrow> split sep s = [s]"
  by (induction s) auto

lemma split_append_sep: "sep \<notin> set a \<Longrightarrow> split sep (a @ sep # b) = a # split sep b"
  by (induction a) auto

subsection \<open>Password hashing\<close>

lemma comparePasswords_hashPassword:
  assumes "scrypt password (toString_hex saltBytes) \<noteq> []" and "saltBytes \<noteq> []"
  shows "comparePasswords scrypt password (hashPassword scrypt saltBytes password) = Inr True"
proof -
  let ?salt = "toString_hex saltBytes"
  let ?hash = "toString_hex (scrypt password ?salt)"
  have parts: "split (CHR ''.'') (?hash @ CHR ''.'' # ?salt) = [?hash, ?salt]"
    by (simp add: split_append_sep split_no_sep dot_notin_toString_hex)
  have "?hash \<noteq> []" "?salt \<noteq> []"
    using assms by (simp_all add: toString_hex_empty)
  then show ?thesis
    using parts
    by (simp add: comparePasswords_def comparePasswords_try_def hashPassword_def Let_def
        timingSafeEqual_def Buffer_from_hex_toString_hex)
qed

text \<open>
  C2. Whatever 16 salt bytes \<^verbatim>\<open>randomBytes\<close> draws, and for every key derivation that
  returns the 64 bytes asked for, verifying a password against the stored form that
  \<^verbatim>\<open>hashPassword\<close> made of it resolves to true.
\<close>

theorem comparePasswords_accepts_own_hash:
  assumes "\<forall>p s. length (scrypt p s) = 64" and "length saltBytes = 16"
  shows "comparePasswords scrypt password (hashPassword scrypt saltBytes password) = Inr True"
proof (rule comparePasswords_hashPassword)
  have "length (scrypt password (toString_hex saltBytes)) = 64" using assms(1) by simp
  then show "scrypt password (toString_hex saltBytes) \<noteq> []" by auto
  show "saltBytes \<noteq> []" using assms(2) by auto
qed

theorem comparePasswords_accepts_own_hash_witness:
  "(\<forall>p s. length (toy_scrypt p s) = 64) \<and> length (replicate 16 (0x5A :: 8 word)) = 16
   \<and> comparePasswords toy_scrypt ''hunter2''
        (hashPassword toy_scrypt (replicate 16 0x5A) ''hunter2'') = Inr True"
proof -
  have len: "\<forall>p s. length (toy_scrypt p s) = 64" by (auto simp: toy_scrypt_def)
  have salt: "length (replicate 16 (0x5A :: 8 word)) = 16" by simp
  from comparePasswords_accepts_own_hash [OF len salt, of "''hunter2''"] len salt
  show ?thesis by blast
qed

text \<open>
  C3. \<^verbatim>\<open>comparePasswords\<close> is total and fails closed. For every supplied password and
  every stored string the promise resolves (it is never rejected), and it resolves to false
  when the stored string is empty, has no \<^verbatim>\<open>'.'\<close>, has an empty hash or salt part, has a
  hash part that does not decode to as many bytes as the derived key has (malformed or short
  hexadecimal text), or makes the body of the \<^verbatim>\<open>try\<close> block throw in any other way.
\<close>

theorem comparePasswords_total_fails_closed:
  "(\<exists>result. comparePasswords scrypt supplied stored = Inr result)
   \<and> (stored = [] \<or> CHR ''.'' \<notin> set stored
        \<or> (\<exists>storedHash salt rest. split (CHR ''.'') stored = storedHash # salt # rest
              \<and> (storedHash = [] \<or> salt = []))
        \<or> (\<exists>storedHash salt rest. split (CHR ''.'') stored = storedHash # salt # rest
              \<and> length (Buffer_from_hex storedHash) \<noteq> length (scrypt supplied salt))
        \<or> (\<exists>err. comparePasswords_try scrypt supplied stored = Inl err)
       \<longrightarrow> comparePasswords scrypt supplied stored = Inr False)"
proof (intro conjI impI)
  show "\<exists>result. comparePasswords scrypt supplied stored = Inr result"
    by (cases "comparePasswords_try scrypt supplied stored") (auto simp: comparePasswords_def)
next
  assume "stored = [] \<or> CHR ''.'' \<notin> set stored
        \<or> (\<exists>storedHash salt rest. split (CHR ''.'') stored = storedHash # salt # rest
              \<and> (storedHash = [] \<or> salt = []))
        \<or> (\<exists>storedHash salt rest. split (CHR ''.'') stored = storedHash # salt # rest
              \<and> length (Buffer_from_hex storedHash) \<noteq> length (scrypt supplied salt))
        \<or> (\<exists>err. comparePasswords_try scrypt supplied stored = Inl err)"
  then consider
      (empty) "stored = []"
    | (nodot) "CHR ''.'' \<notin> set stored"
    | (part) storedHash salt rest where
        "split (CHR ''.'') stored = storedHash # salt # rest" "storedHash = [] \<or> salt = []"
    | (hex) storedHash salt rest where
        "split (CHR ''.'') stored = storedHash # salt # rest"
        "length (Buffer_from_hex storedHash) \<noteq> length (scrypt supplied salt)"
    | (err) err where "comparePasswords_try scrypt supplied stored = Inl err"
    by blast
  then show "comparePasswords scrypt supplied stored = Inr False"
  proof cases
    case empty
    then show ?thesis by (simp add: comparePasswords_def comparePasswords_try_def)
  next
    case nodot
    then show ?thesis by (simp add: comparePasswords_def comparePasswords_try_def)
  next
    case part
    then show ?thesis by (auto simp: comparePasswords_def comparePasswords_try_def)
  next
    case hex
    then show ?thesis
      by (auto simp: comparePasswords_def comparePasswords_try_def timingSafeEqual_def Let_def)
  next
    case err
    then show ?thesis by (simp add: comparePasswords_def)
  qed
qed

theorem comparePasswords_total_fails_closed_witness:
  "comparePasswords_try toy_scrypt ''hunter2'' ''zz.5a5a''
      = Inl (RangeError ''Input buffers must have the same byte length'')
   \<and> comparePasswords toy_scrypt ''hunter2'' ''zz.5a5a'' = Inr False
   \<and> comparePasswords toy_scrypt ''hunter2'' [] = Inr False
   \<and> CHR ''.'' \<notin> set ''68756e746572''
   \<and> comparePasswords toy_scrypt ''hunter2'' ''68756e746572'' = Inr False
   \<and> split (CHR ''.'') ''.5a5a'' = [[], ''5a5a'']
   \<and> comparePasswords toy_scrypt ''hunter2'' ''.5a5a'' = Inr False"
proof -
  have len: "toy_scrypt ''hunter2'' ''5a5a'' \<noteq> []" by (auto simp: toy_scrypt_def)
  have bad: "comparePasswords_try toy_scrypt ''hunter2'' ''zz.5a5a''
      = Inl (RangeError ''Input buffers must have the same byte length'')"
    using len by (simp add: comparePasswords_try_def timingSafeEqual_def unhex_def Let_def)
  have nodot: "CHR ''.'' \<notin> set ''68756e746572''" by simp
  have parts: "split (CHR ''.'') ''.5a5a'' = [[], ''5a5a'']" by simp
  from comparePasswords_total_fails_closed [of toy_scrypt "''hunter2''" "''zz.5a5a''"]
    comparePasswords_total_fails_closed [of toy_scrypt "''hunter2''" "[]"]
    comparePasswords_total_fails_closed [of toy_scrypt "''hunter2''" "''68756e746572''"]
    comparePasswords_total_fails_closed [of toy_scrypt "''hunter2''" "''.5a5a''"]
    bad nodot parts
  show ?thesis by auto
qed

subsection \<open>Lower case in JavaScript and in SQLite\<close>

lemma shift_lower_bits:
  "ascii_upper (Char b0 b1 b2 b3 b4 b5 b6 b7) \<or> latin1_upper (Char b0 b1 b2 b3 b4 b5 b6 b7)
   \<Longrightarrow> of_char (shift_lower (Char b0 b1 b2 b3 b4 b5 b6 b7))
         = (of_char (Char b0 b1 b2 b3 b4 b5 b6 b7) :: nat) + 32"
  by (cases b0; cases b1; cases b2; cases b3; cases b4; cases b5; cases b6; cases b7;
      simp add: shift_lower_def ascii_upper_def latin1_upper_def)

lemma shift_lower_adds_32:
  "ascii_upper c \<or> latin1_upper c \<Longrightarrow> of_char (shift_lower c) = (of_char c :: nat) + 32"
  by (cases c) (simp only: shift_lower_bits)

lemma find_Some_holds: "find P rows = Some y \<Longrightarrow> P y \<and> y \<in> set rows"
  by (induction rows) (auto split: if_splits)

lemma find_unique:
  assumes "row \<in> set rows" and "P row" and "\<forall>r \<in> set rows. P r \<longrightarrow> r = row"
  shows "find P rows = Some row"
proof -
  from assms(1,2) have "find P rows \<noteq> None" by (auto simp: find_None_iff)
  then obtain y where y: "find P rows = Some y" by auto
  then have "P y \<and> y \<in> set rows" by (rule find_Some_holds)
  with assms(3) have "y = row" by blast
  with y show ?thesis by simp
qed

text \<open>
  Where the two lower-case functions agree on the stored email, and no other row has the
  same lowered email, the lookup finds the row.
\<close>

lemma getUserByEmail_found:
  assumes "row \<in> set (users db)"
    and "toLowerCase (trim email) = sql_LOWER (usr_email row)"
    and "usr_email row \<noteq> []"
    and "\<forall>r \<in> set (users db). sql_LOWER (usr_email r) = sql_LOWER (usr_email row) \<longrightarrow> r = row"
  shows "getUserByEmail db email = Some (transformUser row)"
proof -
  define n where "n = sql_LOWER (usr_email row)"
  have nonempty: "n \<noteq> []" using assms(3) by (simp add: n_def sql_LOWER_def)
  have "find (\<lambda>r. sql_LOWER (usr_email r) = n) (users db) = Some row"
  proof (rule find_unique)
    show "row \<in> set (users db)" by (rule assms(1))
    show "sql_LOWER (usr_email row) = n" by (simp add: n_def)
    show "\<forall>r \<in> set (users db). sql_LOWER (usr_email r) = n \<longrightarrow> r = row"
      using assms(4) unfolding n_def by blast
  qed
  moreover have "toLowerCase (trim email) = n" using assms(2) by (simp add: n_def)
  ultimately show ?thesis using nonempty by (simp add: getUserByEmail_def Let_def)
qed

lemma getUserByEmail_ascii_example:
  "getUserByEmail demo_db ''foo@bar.com'' = Some (transformUser foo_row)
   \<and> getUserByEmail demo_db ''  FOO@BAR.COM '' = Some (transformUser foo_row)"
  by code_simp

text \<open>
  C7. The lookup is meant to ignore case: every stored user should be found under any casing
  of the user's email. The code lowers the argument with JavaScript's \<^verbatim>\<open>toLowerCase\<close>
  and the column with SQLite's \<^verbatim>\<open>LOWER\<close>, which leaves capitals outside ASCII alone.
  A user stored with the trimmed email U+00C9 \<^verbatim>\<open>@x.com\<close> is therefore found neither
  under that very email nor under its lower-case form.
\<close>

theorem getUserByEmail_misses_accented_email:
  "users accent_db = [admin_row, accent_row]
   \<and> usr_email accent_row = CHR 0xC9 # ''@x.com''
   \<and> trim (usr_email accent_row) = usr_email accent_row
   \<and> toLowerCase (usr_email accent_row) = CHR 0xE9 # ''@x.com''
   \<and> sql_LOWER (usr_email accent_row) = CHR 0xC9 # ''@x.com''
   \<and> getUserByEmail accent_db (usr_email accent_row) = None
   \<and> getUserByEmail accent_db (CHR 0xE9 # ''@x.com'') = None"
proof -
  have "users accent_db = [admin_row, accent_row]
        \<and> usr_email accent_row = CHR 0xC9 # ''@x.com''"
    by (simp add: accent_db_def accent_row_def)
  moreover have "trim (usr_email accent_row) = usr_email accent_row
        \<and> toLowerCase (usr_email accent_row) = CHR 0xE9 # ''@x.com''
        \<and> sql_LOWER (usr_email accent_row) = CHR 0xC9 # ''@x.com''
        \<and> getUserByEmail accent_db (usr_email accent_row) = None
        \<and> getUserByEmail accent_db (CHR 0xE9 # ''@x.com'') = None"
    by code_simp
  ultimately show ?thesis by blast
qed

subsection \<open>Login of a banned user\<close>

text \<open>
  Once the lookup has resolved the email to a user whose banned flag is set, the verify
  callback fails the login whatever the password is, with the ban message and the stored
  reason.
\<close>

lemma verify_banned_when_found:
  assumes "getUserByEmail db email = Some user" and "user_isBanned user"
  shows "verify scrypt db email password = done_false (ban_message user)
       \<and> ban_message user \<noteq> ''Incorrect email or password''
       \<and> (\<forall>reason. user_banReason user = Some reason \<and> reason \<noteq> [] \<longrightarrow>
             ban_message user = ''Your account has been banned. Reason: '' @ reason)"
  using assms by (auto simp: verify_def ban_message_def or_null_def split: option.splits)

lemma banned_row_password_correct:
  "comparePasswords toy_scrypt ''hunter2'' (usr_password banned_row) = Inr True"
  by code_simp

lemma verify_banned_example:
  "verify toy_scrypt demo_db ''Mallory@Example.com'' ''hunter2''
     = done_false ''Your account has been banned. Reason: spam''"
proof -
  have found: "getUserByEmail demo_db ''Mallory@Example.com'' = Some (transformUser banned_row)"
    by code_simp
  have banned: "user_isBanned (transformUser banned_row)"
    by (simp add: transformUser_def banned_row_def)
  have reason: "user_banReason (transformUser banned_row) = Some ''spam''"
    by (simp add: transformUser_def banned_row_def)
  from verify_banned_when_found [OF found banned, of toy_scrypt "''hunter2''"] reason
  show ?thesis by simp
qed

text \<open>
  C4. For every user whose banned flag is set, a login with that user's email should fail
  with the ban message, the stored reason included, also when the password is correct. The
  code gives that answer only after \<^verbatim>\<open>getUserByEmail\<close> has found the user, and the lookup
  misses an email with a capital outside ASCII (the defect of C7). The banned user stored
  with the email U+00C9 \<^verbatim>\<open>@x.com\<close>, the ban reason \<^verbatim>\<open>spam\<close> and the password
  \<^verbatim>\<open>hunter2\<close> logs in with exactly that email and that password: the login fails, but
  with the message for wrong credentials, not with the ban message.
\<close>

theorem verify_banned_accented_email_generic_failure:
  "users banned_accent_db = [admin_row, banned_accent_row]
   \<and> user_isBanned (transformUser banned_accent_row)
   \<and> user_banReason (transformUser banned_accent_row) = Some ''spam''
   \<and> ban_message (transformUser banned_accent_row)
       = ''Your account has been banned. Reason: spam''
   \<and> comparePasswords toy_scrypt ''hunter2'' (user_password (transformUser banned_accent_row))
       = Inr True
   \<and> getUserByEmail banned_accent_db (user_email (transformUser banned_accent_row)) = None
   \<and> verify toy_scrypt banned_accent_db (user_email (transformUser banned_accent_row))
        ''hunter2''
       = done_false ''Incorrect email or password''"
proof -
  have rows: "users banned_accent_db = [admin_row, banned_accent_row]"
    by (simp add: banned_accent_db_def)
  have banned: "user_isBanned (transformUser banned_accent_row)"
    and reason: "user_banReason (transformUser banned_accent_row) = Some ''spam''"
    by (simp_all add: transformUser_def banned_accent_row_def)
  have msg: "ban_message (transformUser banned_accent_row)
       = ''Your account has been banned. Reason: spam''"
    using reason by (simp add: ban_message_def or_null_def)
  have pw: "comparePasswords toy_scrypt ''hunter2''
              (user_password (transformUser banned_accent_row)) = Inr True"
    by code_simp
  have missed: "getUserByEmail banned_accent_db (user_email (transformUser banned_accent_row))
                  = None"
    by code_simp
  then have run: "verify toy_scrypt banned_accent_db
                    (user_email (transformUser banned_accent_row)) ''hunter2''
                  = done_false ''Incorrect email or password''"
    by (simp add: verify_def)
  from rows banned reason msg pw missed run show ?thesis by blast
qed

subsection \<open>Verification tokens\<close>






subsection \<open>Admin routes: acting on oneself\<close>

text \<open>
  C9, as the specification states it: an admin's role-change or ban request that targets
  the admin's own id is denied with a Forbidden outcome. The routes answer 403 only from
  the \<^verbatim>\<open>isAdmin\<close> middleware, to a caller who is not an admin. To an admin who targets
  their own id they answer 400.
\<close>

theorem admin_self_target_is_bad_request_counterexample:
  "getUser demo_db 1 = Some (transformUser admin_row)
   \<and> user_isAdmin (transformUser admin_row)
   \<and> patch_ban ''2024-06-01T00:00:00.000Z'' demo_db
         \<lparr>req_user = Some (transformUser admin_row), param_userId = 1,
          parsed_body = Some \<lparr>bd_isBanned = True, bd_banReason = None\<rparr>\<rparr>
       = (demo_db, Response 400 (Message ''Cannot ban yourself''))
   \<and> patch_role demo_db
         \<lparr>req_user = Some (transformUser admin_row), param_userId = 1,
          parsed_body = Some \<lparr>rd_isModerator = None, rd_isAdmin = Some False\<rparr>\<rparr>
       = (demo_db, Response 400 (Message ''Cannot modify your own role''))
   \<and> isAdmin demo_db
         \<lparr>req_user = Some (transformUser foo_row), param_userId = 1,
          parsed_body = Some \<lparr>bd_isBanned = True, bd_banReason = None\<rparr>\<rparr>
       = Some (Response 403 (Message ''Admin privileges required''))"
proof -
  have fresh: "getUser demo_db 1 = Some (transformUser admin_row)"
    by (simp add: getUser_def demo_db_def admin_row_def blank_user_def)
  have adm: "user_isAdmin (transformUser admin_row)"
    by (simp add: transformUser_def admin_row_def)
  have uid: "user_id (transformUser admin_row) = 1"
    by (simp add: transformUser_def admin_row_def blank_user_def)
  have other: "isAdmin demo_db
         \<lparr>req_user = Some (transformUser foo_row), param_userId = 1,
          parsed_body = Some \<lparr>bd_isBanned = True, bd_banReason = None\<rparr>\<rparr>
       = Some (Response 403 (Message ''Admin privileges required''))"
    by (simp add: isAdmin_def getUser_def transformUser_def demo_db_def admin_row_def
        foo_row_def blank_user_def)
  show ?thesis
    using fresh adm uid other by (simp add: patch_ban_def patch_role_def isAdmin_def)
qed

text \<open>
  C9, amended: for every admin actor, a role-change or ban request whose target id equals
  the actor's own id is denied before any mutation with status 400: with the message
  \<^verbatim>\<open>Invalid data\<close> when the body fails validation, otherwise with
  \<^verbatim>\<open>Cannot modify your own role\<close> or \<^verbatim>\<open>Cannot ban yourself\<close>. The database, and so
  the target user record, is the one before the request.
\<close>

theorem admin_self_target_denied:
  assumes "getUser db (user_id actor) = Some fresh" and "user_isAdmin fresh"
  shows "(req_user roleReq = Some actor \<and> param_userId roleReq = user_id actor \<longrightarrow>
            patch_role db roleReq
              = (db, Response 400 (Message (case parsed_body roleReq of
                                              None \<Rightarrow> ''Invalid data''
                                            | Some data \<Rightarrow> ''Cannot modify your own role''))))
       \<and> (req_user banReq = Some actor \<and> param_userId banReq = user_id actor \<longrightarrow>
            patch_ban now db banReq
              = (db, Response 400 (Message (case parsed_body banReq of
                                              None \<Rightarrow> ''Invalid data''
                                            | Some data \<Rightarrow> ''Cannot ban yourself''))))"
  using assms
  by (auto simp: patch_role_def patch_ban_def isAdmin_def split: option.splits)

theorem admin_self_target_denied_witness:
  "getUser demo_db (user_id (transformUser admin_row)) = Some (transformUser admin_row)
   \<and> user_isAdmin (transformUser admin_row)
   \<and> patch_role demo_db
         \<lparr>req_user = Some (transformUser admin_row), param_userId = 1,
          parsed_body = Some \<lparr>rd_isModerator = None, rd_isAdmin = Some False\<rparr>\<rparr>
       = (demo_db, Response 400 (Message ''Cannot modify your own role''))
   \<and> patch_ban ''2024-06-01T00:00:00.000Z'' demo_db
         \<lparr>req_user = Some (transformUser admin_row), param_userId = 1,
          parsed_body = Some \<lparr>bd_isBanned = True, bd_banReason = None\<rparr>\<rparr>
       = (demo_db, Response 400 (Message ''Cannot ban yourself''))"
proof -
  have uid: "user_id (transformUser admin_row) = 1"
    by (simp add: transformUser_def admin_row_def blank_user_def)
  have "getUser demo_db 1 = Some (transformUser admin_row)"
    by (simp add: getUser_def demo_db_def admin_row_def blank_user_def)
  then have fresh:
    "getUser demo_db (user_id (transformUser admin_row)) = Some (transformUser admin_row)"
    by (simp only: uid)
  have adm: "user_isAdmin (transformUser admin_row)"
    by (simp add: transformUser_def admin_row_def)
  from admin_self_target_denied [OF fresh adm,
      of "\<lparr>req_user = Some (transformUser admin_row), param_userId = 1,
           parsed_body = Some \<lparr>rd_isModerator = None, rd_isAdmin = Some False\<rparr>\<rparr>"
         "\<lparr>req_user = Some (transformUser admin_row), param_userId = 1,
           parsed_body = Some \<lparr>bd_isBanned = True, bd_banReason = None\<rparr>\<rparr>"
         "''2024-06-01T00:00:00.000Z''"]
    uid fresh adm
  show ?thesis by simp
qed

text \<open>The routes answer 403 to no admin actor, whatever the target and the body.\<close>

lemma admin_never_gets_403:
  assumes "req_user roleReq = Some actor" and "req_user banReq = Some actor"
    and "getUser db (user_id actor) = Some fresh" and "user_isAdmin fresh"
  shows "snd (patch_role db roleReq) \<noteq> Response 403 body
       \<and> snd (patch_ban now db banReq) \<noteq> Response 403 body"
  using assms
  by (auto simp: patch_role_def patch_ban_def isAdmin_def Let_def
      split: option.splits prod.splits sum.splits)

text \<open>The same request aimed at another user does change the database.\<close>

lemma patch_ban_other_target_example:
  "fst (patch_ban ''2024-06-01T00:00:00.000Z'' demo_db
         \<lparr>req_user = Some (transformUser admin_row), param_userId = 2,
          parsed_body = Some \<lparr>bd_isBanned = True, bd_banReason = None\<rparr>\<rparr>) \<noteq> demo_db"
  by code_simp

subsection \<open>Albums: the cover after a removal\<close>

lemma latest_added_None: "latest_added rs = None \<longleftrightarrow> rs = []"
  by (induction rs) (auto split: option.splits)

lemma latest_added_Some:
  "latest_added rs = Some m \<Longrightarrow> m \<in> set rs \<and> (\<forall>q \<in> set rs. ai_added_at q \<le> ai_added_at m)"
proof (induction rs arbitrary: m)
  case Nil
  then show ?case by simp
next
  case (Cons r rs)
  show ?case
  proof (cases "latest_added rs")
    case None
    then have "rs = []" by (simp add: latest_added_None)
    with Cons.prems None show ?thesis by simp
  next
    case (Some m')
    from Cons.IH [OF Some] have m': "m' \<in> set rs" "\<forall>q \<in> set rs. ai_added_at q \<le> ai_added_at m'"
      by simp_all
    show ?thesis
    proof (cases "ai_added_at r < ai_added_at m'")
      case True
      with Cons.prems Some have "m = m'" by simp
      with m' True show ?thesis by auto
    next
      case False
      with Cons.prems Some have "m = r" by simp
      moreover from False have "ai_added_at m' \<le> ai_added_at r" by simp
      ultimately show ?thesis using m'(2) by auto
    qed
  qed
qed

lemma alb_id_set_cover: "alb_id (set_cover albumId cover now a) = alb_id a"
  by (simp add: set_cover_def)

text \<open>
  C5. When the owner removes from an album the image that is its current cover, the call
  succeeds and deletes the membership rows of that image; afterwards the album's cover is
  null if the album has no membership row left, and otherwise it is the image of a
  remaining membership row that was added latest: no remaining row has a greater
  \<^verbatim>\<open>added_at\<close>.
\<close>

theorem removeImageFromAlbum_reassigns_cover:
  assumes "getAlbumById db albumId = Some album"
    and "album_userId album = userId"
    and "album_coverImageId album = Some imageId"
  shows "\<exists>db' row'.
           removeImageFromAlbum now db albumId userId imageId = (db', Inr ())
         \<and> album_images db'
             = filter (\<lambda>r. \<not> (ai_album_id r = albumId \<and> ai_image_id r = imageId))
                 (album_images db)
         \<and> find (\<lambda>a. alb_id a = albumId) (albums db') = Some row'
         \<and> (if album_members db' albumId = [] then alb_cover_image_id row' = None
             else \<exists>m \<in> set (album_members db' albumId).
                    alb_cover_image_id row' = Some (ai_image_id m)
                  \<and> (\<forall>q \<in> set (album_members db' albumId). ai_added_at q \<le> ai_added_at m))"
proof -
  define db1 where "db1 = db\<lparr>album_images :=
       filter (\<lambda>r. \<not> (ai_album_id r = albumId \<and> ai_image_id r = imageId)) (album_images db)\<rparr>"
  define cover where "cover = map_option ai_image_id (latest_added (album_members db1 albumId))"
  define db' where "db' = db1\<lparr>albums := map (set_cover albumId cover now) (albums db1)\<rparr>"
  from assms(1) obtain row where row: "find (\<lambda>a. alb_id a = albumId) (albums db) = Some row"
    by (auto simp: getAlbumById_def)
  have rid: "alb_id row = albumId" using row by (rule find_key_eq)
  have run: "removeImageFromAlbum now db albumId userId imageId = (db', Inr ())"
    using assms by (simp add: removeImageFromAlbum_def Let_def db1_def cover_def db'_def)
  have imgs: "album_images db'
      = filter (\<lambda>r. \<not> (ai_album_id r = albumId \<and> ai_image_id r = imageId)) (album_images db)"
    by (simp add: db'_def db1_def)
  have members: "album_members db' albumId = album_members db1 albumId"
    by (simp add: album_members_def db'_def)
  define row' where "row' = set_cover albumId cover now row"
  have found: "find (\<lambda>a. alb_id a = albumId) (albums db') = Some row'"
    using row
    by (simp add: row'_def db'_def db1_def find_map_key [where key = alb_id, OF alb_id_set_cover])
  have cov: "alb_cover_image_id row' = cover"
    using rid by (simp add: row'_def set_cover_def)
  have final: "if album_members db' albumId = [] then alb_cover_image_id row' = None
             else \<exists>m \<in> set (album_members db' albumId).
                    alb_cover_image_id row' = Some (ai_image_id m)
                  \<and> (\<forall>q \<in> set (album_members db' albumId). ai_added_at q \<le> ai_added_at m)"
  proof (cases "latest_added (album_members db1 albumId)")
    case None
    then show ?thesis by (simp add: cov members cover_def latest_added_None)
  next
    case (Some m)
    then have "album_members db1 albumId \<noteq> []" by (auto simp: latest_added_None)
    moreover from latest_added_Some [OF Some] have "m \<in> set (album_members db1 albumId)"
      "\<forall>q \<in> set (album_members db1 albumId). ai_added_at q \<le> ai_added_at m" by simp_all
    ultimately show ?thesis using Some by (auto simp: cov members cover_def)
  qed
  from run imgs found final show ?thesis by blast
qed


theorem removeImageFromAlbum_reassigns_cover_witness:
  "getAlbumById demo_db 1 = Some (transformAlbum holiday_row)
   \<and> album_userId (transformAlbum holiday_row) = 2
   \<and> album_coverImageId (transformAlbum holiday_row) = Some 1
   \<and> snd (removeImageFromAlbum ''2024-06-01T00:00:00.000Z'' demo_db 1 2 1) = Inr ()
   \<and> map alb_cover_image_id
         (albums (fst (removeImageFromAlbum ''2024-06-01T00:00:00.000Z'' demo_db 1 2 1)))
       = [Some 3]
   \<and> map alb_cover_image_id
         (albums (fst (removeImageFromAlbum ''2024-06-02T00:00:00.000Z''
                         (fst (removeImageFromAlbum ''2024-06-01T00:00:00.000Z'' demo_db 1 2 1))
                         1 2 3)))
       = [None]"
proof -
  have album: "getAlbumById demo_db 1 = Some (transformAlbum holiday_row)"
    by (simp add: getAlbumById_def demo_db_def holiday_row_def)
  have owner: "album_userId (transformAlbum holiday_row) = 2"
    by (simp add: transformAlbum_def holiday_row_def)
  have cover: "album_coverImageId (transformAlbum holiday_row) = Some 1"
    by (simp add: transformAlbum_def holiday_row_def truthy_num_def)
  from removeImageFromAlbum_reassigns_cover
         [OF album owner cover, of "''2024-06-01T00:00:00.000Z''"]
  have ok: "snd (removeImageFromAlbum ''2024-06-01T00:00:00.000Z'' demo_db 1 2 1) = Inr ()"
    by auto
  have runs: "map alb_cover_image_id
         (albums (fst (removeImageFromAlbum ''2024-06-01T00:00:00.000Z'' demo_db 1 2 1)))
       = [Some 3]
   \<and> map alb_cover_image_id
         (albums (fst (removeImageFromAlbum ''2024-06-02T00:00:00.000Z''
                         (fst (removeImageFromAlbum ''2024-06-01T00:00:00.000Z'' demo_db 1 2 1))
                         1 2 3)))
       = [None]"
    by code_simp
  from album owner cover ok runs show ?thesis by blast
qed

subsection \<open>Albums: only approved images\<close>

text \<open>
  C6. For every album and every stored image whose status is pending or rejected,
  \<^verbatim>\<open>addImageToAlbum\<close> throws and leaves the database, the membership rows included, as
  it was; when the album exists and the caller owns it, the error is the one about approved
  images. Conversely a call that succeeds was made for an image whose status is approved.
\<close>

theorem addImageToAlbum_requires_approved:
  "(\<forall>img. getImageById db imageId = Some img
           \<and> (image_status img = pending \<or> image_status img = rejected) \<longrightarrow>
       (\<exists>msg. addImageToAlbum now db albumId userId imageId = (db, Inl (Error msg)))
     \<and> (\<forall>album. getAlbumById db albumId = Some album \<and> album_userId album = userId \<longrightarrow>
           addImageToAlbum now db albumId userId imageId
             = (db, Inl (Error ''Only approved images can be added to albums''))))
   \<and> (\<forall>db'. addImageToAlbum now db albumId userId imageId = (db', Inr ()) \<longrightarrow>
         (\<exists>img. getImageById db imageId = Some img \<and> image_status img = approved))"
proof (intro conjI allI impI)
  fix img
  assume "getImageById db imageId = Some img
           \<and> (image_status img = pending \<or> image_status img = rejected)"
  then have img: "getImageById db imageId = Some img" and st: "image_status img \<noteq> approved"
    by auto
  show "\<exists>msg. addImageToAlbum now db albumId userId imageId = (db, Inl (Error msg))"
    using img st by (simp add: addImageToAlbum_def split: option.splits)
  fix album
  assume "getAlbumById db albumId = Some album \<and> album_userId album = userId"
  then show "addImageToAlbum now db albumId userId imageId
             = (db, Inl (Error ''Only approved images can be added to albums''))"
    using img st by (simp add: addImageToAlbum_def)
next
  fix db'
  assume "addImageToAlbum now db albumId userId imageId = (db', Inr ())"
  then show "\<exists>img. getImageById db imageId = Some img \<and> image_status img = approved"
    by (auto simp: addImageToAlbum_def Let_def split: option.splits if_splits)
qed

theorem addImageToAlbum_requires_approved_witness:
  "getImageById demo_db 2 = Some (transformImage harbour_row)
   \<and> image_status (transformImage harbour_row) = pending
   \<and> getImageById demo_db 4 = Some (transformImage blurry_row)
   \<and> image_status (transformImage blurry_row) = rejected
   \<and> getAlbumById demo_db 1 = Some (transformAlbum holiday_row)
   \<and> album_userId (transformAlbum holiday_row) = 2
   \<and> addImageToAlbum ''2024-06-01T00:00:00.000Z'' demo_db 1 2 2
       = (demo_db, Inl (Error ''Only approved images can be added to albums''))
   \<and> addImageToAlbum ''2024-06-01T00:00:00.000Z'' demo_db 1 2 4
       = (demo_db, Inl (Error ''Only approved images can be added to albums''))
   \<and> snd (addImageToAlbum ''2024-06-01T00:00:00.000Z'' demo_db 1 2 5) = Inr ()
   \<and> album_images (fst (addImageToAlbum ''2024-06-01T00:00:00.000Z'' demo_db 1 2 5))
       = album_images demo_db
           @ [\<lparr>ai_album_id = 1, ai_image_id = 5, ai_added_at = ''2024-06-01T00:00:00.000Z''\<rparr>]
   \<and> (\<exists>img. getImageById demo_db 5 = Some img \<and> image_status img = approved)"
proof -
  have i2: "getImageById demo_db 2 = Some (transformImage harbour_row)"
    by (simp add: getImageById_def demo_db_def sunset_row_def harbour_row_def)
  have s2: "image_status (transformImage harbour_row) = pending"
    by (simp add: transformImage_def harbour_row_def)
  have i4: "getImageById demo_db 4 = Some (transformImage blurry_row)"
    by (simp add: getImageById_def demo_db_def sunset_row_def harbour_row_def dunes_row_def
        blurry_row_def)
  have s4: "image_status (transformImage blurry_row) = rejected"
    by (simp add: transformImage_def blurry_row_def)
  have album: "getAlbumById demo_db 1 = Some (transformAlbum holiday_row)"
    by (simp add: getAlbumById_def demo_db_def holiday_row_def)
  have owner: "album_userId (transformAlbum holiday_row) = 2"
    by (simp add: transformAlbum_def holiday_row_def)
  have add5: "addImageToAlbum ''2024-06-01T00:00:00.000Z'' demo_db 1 2 5
      = (demo_db\<lparr>album_images := album_images demo_db
           @ [\<lparr>ai_album_id = 1, ai_image_id = 5, ai_added_at = ''2024-06-01T00:00:00.000Z''\<rparr>]\<rparr>,
         Inr ())"
    by (simp add: addImageToAlbum_def getAlbumById_def getImageById_def transformAlbum_def
        transformImage_def truthy_num_def demo_db_def holiday_row_def sunset_row_def
        harbour_row_def dunes_row_def blurry_row_def meadow_row_def)
  from addImageToAlbum_requires_approved [of demo_db 2 "''2024-06-01T00:00:00.000Z''" 1 2]
    addImageToAlbum_requires_approved [of demo_db 4 "''2024-06-01T00:00:00.000Z''" 1 2]
    addImageToAlbum_requires_approved [of demo_db 5 "''2024-06-01T00:00:00.000Z''" 1 2]
    i2 s2 i4 s4 album owner add5
  show ?thesis by auto
qed

end
